theory Spec2Isabelle
  imports Main
begin

section \<open>Strings\<close>

text \<open>
  A JavaScript string is a sequence of UTF-16 code units. The model uses \<^typ>\<open>string\<close>, so a
  \<^typ>\<open>char\<close> stands for a code unit in the range 0..255 (the Latin-1 block); code units above
  255 are outside the model. On that range the two built-ins the page calls are as below.
\<close>

definition codeUnit :: "char \<Rightarrow> nat" where
  "codeUnit c = of_char c"

text \<open>
  \<open>String.prototype.trim\<close> strips WhiteSpace and LineTerminator code points from both ends.
  Below 256 these are TAB, LF, VT, FF, CR, SPACE and NO-BREAK SPACE.
\<close>

definition isWhiteSpace :: "char \<Rightarrow> bool" where
  "isWhiteSpace c = (codeUnit c \<in> set [9, 10, 11, 12, 13, 32, 160])"

definition trim :: "string \<Rightarrow> string" where
  "trim s = rev (dropWhile isWhiteSpace (rev (dropWhile isWhiteSpace s)))"

text \<open>
  \<open>String.prototype.toLowerCase\<close>: below 256 the letters with a lower-case mapping are A..Z
  and U+00C0..U+00DE without the multiplication sign U+00D7; each maps to the code unit 32 above.
\<close>

definition lowerUnit :: "char \<Rightarrow> char" where
  "lowerUnit c =
     (let n = codeUnit c
      in if 65 \<le> n \<and> n \<le> 90 then char_of (n + 32)
         else if 192 \<le> n \<and> n \<le> 214 then char_of (n + 32)
         else if 216 \<le> n \<and> n \<le> 222 then char_of (n + 32)
         else c)"

definition toLowerCase :: "string \<Rightarrow> string" where
  "toLowerCase s = map lowerUnit s"


section \<open>The game data returned by the service\<close>

record Question =
  question :: string
  options :: "string list"
  correctAnswer :: string
  explanation :: string
  hint :: "string option"

record Blank =
  sentence :: string
  answer :: string
  blank_explanation :: string
  blank_hint :: "string option"

text \<open>
  A game object carries its \<open>type\<close> tag as a string; \<open>questions\<close> is read by the
  multiple-choice component and \<open>blanks\<close> by the fill-in-the-blanks component.
\<close>

record Game =
  type :: string
  title :: string
  description :: string
  questions :: "Question list"
  blanks :: "Blank list"

record GameBundle =
  lessonSummary :: string
  complexity :: string
  ageRange :: string
  games :: "Game list"


section \<open>MultipleChoiceGame: component state and handlers\<close>

text \<open>
  The four \<open>useState\<close> cells of the component. A handler runs to completion on one event and
  the component re-renders before the next event, so each handler is a function from the
  state it closes over to the next state.
\<close>

record MultipleChoiceState =
  selectedAnswers :: "nat \<rightharpoonup> string"
  mc_showResults :: "nat \<rightharpoonup> bool"
  mc_score :: int
  mc_submitted :: bool

definition mc_initial :: MultipleChoiceState where
  "mc_initial =
     \<lparr>selectedAnswers = Map.empty, mc_showResults = Map.empty, mc_score = 0, mc_submitted = False\<rparr>"

definition mc_handleOptionChange :: "nat \<Rightarrow> string \<Rightarrow> MultipleChoiceState \<Rightarrow> MultipleChoiceState" where
  "mc_handleOptionChange qIndex option s =
     s\<lparr>selectedAnswers := (selectedAnswers s)(qIndex \<mapsto> option),
       mc_showResults := (mc_showResults s)(qIndex \<mapsto> False)\<rparr>"

definition mc_handleSubmitAnswer :: "nat \<Rightarrow> string \<Rightarrow> MultipleChoiceState \<Rightarrow> MultipleChoiceState" where
  "mc_handleSubmitAnswer qIndex correctAnswer' s =
     s\<lparr>mc_showResults := (mc_showResults s)(qIndex \<mapsto> True),
       mc_score := (if selectedAnswers s qIndex = Some correctAnswer' \<and> \<not> mc_submitted s
                    then mc_score s + 1 else mc_score s),
       mc_submitted := True\<rparr>"

datatype mc_event = McOptionChange nat string | McSubmitAnswer nat string

fun mc_step :: "mc_event \<Rightarrow> MultipleChoiceState \<Rightarrow> MultipleChoiceState" where
  "mc_step (McOptionChange qIndex option) s = mc_handleOptionChange qIndex option s"
| "mc_step (McSubmitAnswer qIndex c) s = mc_handleSubmitAnswer qIndex c s"

fun mc_run :: "MultipleChoiceState \<Rightarrow> mc_event list \<Rightarrow> MultipleChoiceState" where
  "mc_run s [] = s"
| "mc_run s (e # es) = mc_run (mc_step e s) es"


section \<open>FillInTheBlanksGame: component state and handlers\<close>

record FillInTheBlanksState =
  userAnswers :: "nat \<rightharpoonup> string"
  fib_showResults :: "nat \<rightharpoonup> bool"
  fib_score :: int
  fib_submitted :: bool

definition fib_initial :: FillInTheBlanksState where
  "fib_initial =
     \<lparr>userAnswers = Map.empty, fib_showResults = Map.empty, fib_score = 0, fib_submitted = False\<rparr>"

definition fib_handleInputChange :: "nat \<Rightarrow> string \<Rightarrow> FillInTheBlanksState \<Rightarrow> FillInTheBlanksState" where
  "fib_handleInputChange blankIndex v s =
     s\<lparr>userAnswers := (userAnswers s)(blankIndex \<mapsto> v),
       fib_showResults := (fib_showResults s)(blankIndex \<mapsto> False)\<rparr>"

text \<open>
  \<open>userAnswers[blankIndex]?.toLowerCase()\<close> is \<open>undefined\<close> for an absent entry and the
  lower-cased string otherwise; \<open>===\<close> then compares it with a string.
\<close>

definition fib_handleSubmitAnswer :: "nat \<Rightarrow> string \<Rightarrow> FillInTheBlanksState \<Rightarrow> FillInTheBlanksState" where
  "fib_handleSubmitAnswer blankIndex correctAnswer' s =
     s\<lparr>fib_showResults := (fib_showResults s)(blankIndex \<mapsto> True),
       fib_score := (if map_option toLowerCase (userAnswers s blankIndex)
                          = Some (toLowerCase correctAnswer') \<and> \<not> fib_submitted s
                     then fib_score s + 1 else fib_score s),
       fib_submitted := True\<rparr>"

definition fib_isCorrect :: "FillInTheBlanksState \<Rightarrow> nat \<Rightarrow> string \<Rightarrow> bool" where
  "fib_isCorrect s blankIndex correctAnswer' =
     (map_option toLowerCase (userAnswers s blankIndex) = Some (toLowerCase correctAnswer'))"

text \<open>
  The Check Answer button of a blank is rendered only while \<open>showResults[bIndex]\<close> is falsy,
  and it carries \<open>disabled={!userAnswers[bIndex]?.trim()}\<close>: an absent response and a response
  that trims to the empty string disable it. Its \<open>onClick\<close> is the only call of
  \<open>handleSubmitAnswer\<close>, with the blank's \<open>answer\<close>; a click on a button that is disabled or
  not rendered runs no handler.
\<close>

definition fib_checkDisabled :: "FillInTheBlanksState \<Rightarrow> nat \<Rightarrow> bool" where
  "fib_checkDisabled s bIndex =
     (case userAnswers s bIndex of None \<Rightarrow> True | Some r \<Rightarrow> trim r = [])"

definition fib_clickCheck :: "nat \<Rightarrow> Blank \<Rightarrow> FillInTheBlanksState \<Rightarrow> FillInTheBlanksState" where
  "fib_clickCheck bIndex b s =
     (if fib_showResults s bIndex = Some True then s
      else if fib_checkDisabled s bIndex then s
      else fib_handleSubmitAnswer bIndex (answer b) s)"

datatype fib_event = FibInputChange nat string | FibSubmitAnswer nat string

fun fib_step :: "fib_event \<Rightarrow> FillInTheBlanksState \<Rightarrow> FillInTheBlanksState" where
  "fib_step (FibInputChange blankIndex v) s = fib_handleInputChange blankIndex v s"
| "fib_step (FibSubmitAnswer blankIndex c) s = fib_handleSubmitAnswer blankIndex c s"

fun fib_run :: "FillInTheBlanksState \<Rightarrow> fib_event list \<Rightarrow> FillInTheBlanksState" where
  "fib_run s [] = s"
| "fib_run s (e # es) = fib_run (fib_step e s) es"


section \<open>Feedback panels\<close>

text \<open>
  Rendering evaluates JavaScript expressions, which can throw; the render functions return
  the error as a value.
\<close>

datatype render_error = ReferenceError string | TypeError string

record FeedbackPanel =
  fb_correct :: bool
  fb_explanation :: string
  fb_hint :: "string option"

text \<open>\<open>x && ...\<close> on an optional string: absent and empty strings are falsy.\<close>

definition truthyText :: "string option \<Rightarrow> string option" where
  "truthyText x = (case x of None \<Rightarrow> None | Some h \<Rightarrow> if h = [] then None else Some h)"

text \<open>
  \<open>isCorrect\<close> of MultipleChoiceGame ignores its second argument and reads
  \<open>game.questions[qIndex].correctAnswer\<close>; reading a property of the \<open>undefined\<close> that an
  out-of-range index gives is a TypeError.
\<close>

definition mc_isCorrect :: "MultipleChoiceState \<Rightarrow> Game \<Rightarrow> nat \<Rightarrow> render_error + bool" where
  "mc_isCorrect s game qIndex =
     (if qIndex < length (questions game)
      then Inr (selectedAnswers s qIndex = Some (correctAnswer (questions game ! qIndex)))
      else Inl (TypeError ''correctAnswer''))"

text \<open>
  The panel under question \<open>q\<close> (the parameter of the \<open>game.questions.map\<close> callback), shown
  when \<open>showResults[qIndex]\<close> is truthy.
\<close>

definition mc_feedbackPanel ::
    "MultipleChoiceState \<Rightarrow> Game \<Rightarrow> Question \<Rightarrow> nat \<Rightarrow> render_error + FeedbackPanel option" where
  "mc_feedbackPanel s game q qIndex =
     (if mc_showResults s qIndex = Some True
      then (case mc_isCorrect s game qIndex of
              Inl e \<Rightarrow> Inl e
            | Inr ok \<Rightarrow> Inr (Some \<lparr>fb_correct = ok, fb_explanation = explanation q,
                                   fb_hint = truthyText (hint q)\<rparr>))
      else Inr None)"

text \<open>
  The item objects that identifiers denote inside the \<open>game.blanks.map\<close> callback of
  FillInTheBlanksGame: its parameter \<open>b\<close>. The name \<open>q\<close> is bound only as the parameter of
  the callback inside MultipleChoiceGame and in no scope that encloses this one.
\<close>

definition fib_itemScope :: "Blank \<Rightarrow> (string \<rightharpoonup> Blank)" where
  "fib_itemScope b = [''b'' \<mapsto> b]"

text \<open>
  The panel under blank \<open>b\<close>: after the verdict it evaluates \<open>q.explanation\<close> and \<open>q.hint\<close>.
\<close>

definition fib_feedbackPanel ::
    "FillInTheBlanksState \<Rightarrow> Blank \<Rightarrow> nat \<Rightarrow> render_error + FeedbackPanel option" where
  "fib_feedbackPanel s b bIndex =
     (if fib_showResults s bIndex = Some True
      then (case fib_itemScope b ''q'' of
              None \<Rightarrow> Inl (ReferenceError ''q'')
            | Some q \<Rightarrow> Inr (Some \<lparr>fb_correct = fib_isCorrect s bIndex (answer b),
                                    fb_explanation = blank_explanation q,
                                    fb_hint = truthyText (blank_hint q)\<rparr>))
      else Inr None)"


section \<open>App: page state and generateGames\<close>

record AppState =
  lessonText :: string
  gameData :: "GameBundle option"
  loading :: bool
  error :: string

definition setLessonText :: "string \<Rightarrow> AppState \<Rightarrow> AppState" where
  "setLessonText v s = s\<lparr>lessonText := v\<rparr>"

text \<open>The call \<open>post({apiName, path, options: {body: {lessonText}}})\<close> of the Amplify client.\<close>

datatype http_method = GET | POST | PUT | DELETE

record RestRequest =
  httpMethod :: http_method
  apiName :: string
  path :: string
  body_lessonText :: string

text \<open>A value caught by \<open>catch (err)\<close>: an error object whose \<open>message\<close> may be missing.\<close>

datatype thrown = Thrown (message: "string option")

text \<open>
  How the two awaits of \<open>generateGames\<close> can end: \<open>restOperation.response\<close> rejects,
  \<open>body.json()\<close> rejects, or the body decodes to a value.
\<close>

datatype outcome = ResponseRejected thrown | JsonRejected thrown | JsonResolved GameBundle

text \<open>
  \<open>generateGames\<close> up to its first \<open>await\<close>: the state it leaves and the requests it issued.
\<close>

definition generateGames_begin :: "AppState \<Rightarrow> AppState \<times> RestRequest list" where
  "generateGames_begin s =
     (if trim (lessonText s) = []
      then (s\<lparr>error := ''Please paste or type some lesson content.''\<rparr>, [])
      else (s\<lparr>loading := True, gameData := None, error := []\<rparr>,
            [\<lparr>httpMethod = POST, apiName = ''learn2gameapi'', path = ''/items'',
              body_lessonText = lessonText s\<rparr>]))"

definition displayError :: "thrown \<Rightarrow> string" where
  "displayError err =
     ''Failed to generate games. Please try again. Make sure your serverless function is deployed correctly.''
     @ (case message err of
          None \<Rightarrow> []
        | Some m \<Rightarrow> if m = [] then [] else '' Error: '' @ m)"

text \<open>The rest of \<open>generateGames\<close>: the \<open>try\<close> body after the awaits, \<open>catch\<close> and \<open>finally\<close>.\<close>

definition generateGames_settle :: "outcome \<Rightarrow> AppState \<Rightarrow> AppState" where
  "generateGames_settle out s =
     (case out of
        JsonResolved jsonResponse \<Rightarrow> s\<lparr>gameData := Some jsonResponse\<rparr>
      | ResponseRejected err \<Rightarrow> s\<lparr>error := displayError err\<rparr>
      | JsonRejected err \<Rightarrow> s\<lparr>error := displayError err\<rparr>)
     \<lparr>loading := False\<rparr>"

text \<open>
  While the request is pending the page still takes \<open>onChange\<close> events of the textarea.
\<close>

fun typing :: "AppState \<Rightarrow> string list \<Rightarrow> AppState" where
  "typing s [] = s"
| "typing s (v # vs) = typing (setLessonText v s) vs"


section \<open>App: rendering\<close>

text \<open>A game element as the page creates it: its \<open>key\<close> and its \<open>game\<close> prop.\<close>

datatype element = MultipleChoiceGame nat Game | FillInTheBlanksGame nat Game

definition dispatchGame :: "Game \<Rightarrow> nat \<Rightarrow> element option" where
  "dispatchGame game index =
     (if type game = ''multipleChoice'' then Some (MultipleChoiceGame index game)
      else if type game = ''fillInTheBlanks'' then Some (FillInTheBlanksGame index game)
      else None)"

definition renderGames :: "Game list \<Rightarrow> element option list" where
  "renderGames gs = map (\<lambda>(index, game). dispatchGame game index) (enumerate 0 gs)"

text \<open>Mounting an element runs the component's \<open>useState\<close> initialisers.\<close>

datatype mounted =
    MultipleChoiceInstance Game MultipleChoiceState
  | FillInTheBlanksInstance Game FillInTheBlanksState

fun mount :: "element \<Rightarrow> mounted" where
  "mount (MultipleChoiceGame k game) = MultipleChoiceInstance game mc_initial"
| "mount (FillInTheBlanksGame k game) = FillInTheBlanksInstance game fib_initial"

text \<open>
  What the page shows of its controls. The textarea element is given no \<open>disabled\<close>
  attribute, the button is given \<open>disabled={loading}\<close>.
\<close>

record PageView =
  textarea_value :: string
  textarea_disabled :: bool
  button_disabled :: bool
  button_label :: string
  error_panel :: "string option"
  games_panel :: "element option list option"

definition renderApp :: "AppState \<Rightarrow> PageView" where
  "renderApp s =
     \<lparr>textarea_value = lessonText s,
      textarea_disabled = False,
      button_disabled = loading s,
      button_label = (if loading s then ''Generating Games...'' else ''Generate Interactive Games''),
      error_panel = (if error s = [] then None else Some (error s)),
      games_panel = map_option (\<lambda>b. renderGames (games b)) (gameData s)\<rparr>"


section \<open>Example data\<close>

definition idle_page :: AppState where
  "idle_page =
     \<lparr>lessonText = ''Photosynthesis converts light into energy.'', gameData = None,
      loading = False, error = []\<rparr>"

definition blank_page :: AppState where
  "blank_page = idle_page\<lparr>lessonText := [CHR '' '', CHR 0x09, CHR 0x0A, CHR '' '']\<rparr>"

definition paris_blank :: Blank where
  "paris_blank =
     \<lparr>sentence = ''The capital of France is _.'', answer = ''Paris'',
      blank_explanation = ''Paris is the capital of France.'', blank_hint = Some ''A city.''\<rparr>"

definition paris_question :: Question where
  "paris_question =
     \<lparr>question = ''What is the capital of France?'', options = [''Paris'', ''Rome''],
      correctAnswer = ''Paris'', explanation = ''Paris is the capital of France.'',
      hint = Some ''A city.''\<rparr>"

definition quiz_game :: Game where
  "quiz_game =
     \<lparr>type = ''multipleChoice'', title = ''Quiz'', description = ''Pick one.'',
      questions = [paris_question], blanks = []\<rparr>"

definition blanks_game :: Game where
  "blanks_game =
     \<lparr>type = ''fillInTheBlanks'', title = ''Blanks'', description = ''Fill in.'',
      questions = [], blanks = [paris_blank]\<rparr>"

definition puzzle_game :: Game where
  "puzzle_game =
     \<lparr>type = ''crossword'', title = ''Puzzle'', description = ''Solve.'',
      questions = [], blanks = []\<rparr>"

definition lesson_bundle :: GameBundle where
  "lesson_bundle =
     \<lparr>lessonSummary = ''Plants make energy from light.'', complexity = ''easy'',
      ageRange = ''8-10'', games = [quiz_game, puzzle_game, blanks_game]\<rparr>"


section \<open>Scoring is locked by the first check\<close>

lemma mc_step_submitted: "mc_submitted s \<Longrightarrow> mc_submitted (mc_step e s)"
  by (cases e) (simp_all add: mc_handleOptionChange_def mc_handleSubmitAnswer_def)

lemma mc_step_score: "mc_submitted s \<Longrightarrow> mc_score (mc_step e s) = mc_score s"
  by (cases e) (simp_all add: mc_handleOptionChange_def mc_handleSubmitAnswer_def)

lemma mc_run_score: "mc_submitted s \<Longrightarrow> mc_score (mc_run s es) = mc_score s"
proof (induction es arbitrary: s)
  case Nil
  show ?case by simp
next
  case (Cons e es)
  have "mc_score (mc_run (mc_step e s) es) = mc_score (mc_step e s)"
    using Cons.prems by (intro Cons.IH mc_step_submitted)
  then show ?case
    using Cons.prems by (simp add: mc_step_score)
qed

lemma fib_step_submitted: "fib_submitted s \<Longrightarrow> fib_submitted (fib_step e s)"
  by (cases e) (simp_all add: fib_handleInputChange_def fib_handleSubmitAnswer_def)

lemma fib_step_score: "fib_submitted s \<Longrightarrow> fib_score (fib_step e s) = fib_score s"
  by (cases e) (simp_all add: fib_handleInputChange_def fib_handleSubmitAnswer_def)

lemma fib_run_score: "fib_submitted s \<Longrightarrow> fib_score (fib_run s es) = fib_score s"
proof (induction es arbitrary: s)
  case Nil
  show ?case by simp
next
  case (Cons e es)
  have "fib_score (fib_run (fib_step e s) es) = fib_score (fib_step e s)"
    using Cons.prems by (intro Cons.IH fib_step_submitted)
  then show ?case
    using Cons.prems by (simp add: fib_step_score)
qed

lemma mc_two_questions:
  "mc_score (mc_run mc_initial
      [McOptionChange 0 a, McSubmitAnswer 0 a, McOptionChange 1 b, McSubmitAnswer 1 b]) = 1"
  by (simp add: mc_initial_def mc_handleOptionChange_def mc_handleSubmitAnswer_def)

lemma fib_two_blanks:
  "fib_score (fib_run fib_initial
      [FibInputChange 0 a, FibSubmitAnswer 0 a, FibInputChange 1 b, FibSubmitAnswer 1 b]) = 1"
  by (simp add: fib_initial_def fib_handleInputChange_def fib_handleSubmitAnswer_def)

text \<open>
  C1. In both quiz components, a call of \<open>handleSubmitAnswer\<close> on any item sets the
  \<open>submitted\<close> flag, and from then on no sequence of later events (answer changes and checks,
  on any items, with any answers) changes the score. A session of two items, both answered
  with the correct value and checked in order, ends with score 1.
\<close>

theorem C1_first_check_locks_score:
  "mc_submitted (mc_handleSubmitAnswer i c s)
   \<and> mc_score (mc_run (mc_handleSubmitAnswer i c s) es) = mc_score (mc_handleSubmitAnswer i c s)
   \<and> mc_score (mc_handleSubmitAnswer j d (mc_handleOptionChange j d (mc_handleSubmitAnswer i c s)))
       = mc_score (mc_handleSubmitAnswer i c s)
   \<and> fib_submitted (fib_handleSubmitAnswer i c t)
   \<and> fib_score (fib_run (fib_handleSubmitAnswer i c t) fs) = fib_score (fib_handleSubmitAnswer i c t)
   \<and> fib_score (fib_handleSubmitAnswer j d (fib_handleInputChange j d (fib_handleSubmitAnswer i c t)))
       = fib_score (fib_handleSubmitAnswer i c t)
   \<and> mc_score (mc_run mc_initial
        [McOptionChange 0 a, McSubmitAnswer 0 a, McOptionChange 1 b, McSubmitAnswer 1 b]) = 1
   \<and> fib_score (fib_run fib_initial
        [FibInputChange 0 a, FibSubmitAnswer 0 a, FibInputChange 1 b, FibSubmitAnswer 1 b]) = 1"
proof -
  have m: "mc_submitted (mc_handleSubmitAnswer i c s)"
    by (simp add: mc_handleSubmitAnswer_def)
  have f: "fib_submitted (fib_handleSubmitAnswer i c t)"
    by (simp add: fib_handleSubmitAnswer_def)
  have m2: "mc_score (mc_handleSubmitAnswer j d (mc_handleOptionChange j d (mc_handleSubmitAnswer i c s)))
       = mc_score (mc_handleSubmitAnswer i c s)"
    using mc_run_score [OF m, of "[McOptionChange j d, McSubmitAnswer j d]"] by simp
  have f2: "fib_score (fib_handleSubmitAnswer j d (fib_handleInputChange j d (fib_handleSubmitAnswer i c t)))
       = fib_score (fib_handleSubmitAnswer i c t)"
    using fib_run_score [OF f, of "[FibInputChange j d, FibSubmitAnswer j d]"] by simp
  show ?thesis
    using m f m2 f2 mc_run_score [OF m] fib_run_score [OF f] mc_two_questions fib_two_blanks
    by simp
qed


section \<open>Facts about the string built-ins\<close>

lemma dropWhile_all_iff: "(\<forall>x\<in>set (dropWhile P xs). P x) \<longleftrightarrow> (\<forall>x\<in>set xs. P x)"
  by (induction xs) auto

lemma trim_empty_iff: "trim s = [] \<longleftrightarrow> (\<forall>c\<in>set s. isWhiteSpace c)"
  by (simp add: trim_def dropWhile_eq_Nil_conv dropWhile_all_iff)

lemma toLowerCase_empty_iff: "toLowerCase s = [] \<longleftrightarrow> s = []"
  by (simp add: toLowerCase_def)

lemma toLowerCase_Paris: "toLowerCase ''Paris'' = toLowerCase ''paris''"
  by code_simp

section \<open>Fill-in-the-blank matching\<close>

lemma fib_isCorrect_iff:
  "fib_isCorrect s i ans \<longleftrightarrow> (\<exists>r. userAnswers s i = Some r \<and> toLowerCase r = toLowerCase ans)"
  by (cases "userAnswers s i") (simp_all add: fib_isCorrect_def)

lemma fib_handleSubmitAnswer_score:
  "fib_score (fib_handleSubmitAnswer i ans s)
     = (if fib_isCorrect s i ans \<and> \<not> fib_submitted s then fib_score s + 1 else fib_score s)"
  by (simp add: fib_handleSubmitAnswer_def fib_isCorrect_def)

lemma fib_checkDisabled_blank:
  "userAnswers s i = None \<or> userAnswers s i = Some [] \<Longrightarrow> fib_checkDisabled s i"
  by (auto simp add: fib_checkDisabled_def trim_def)

lemma fib_clickCheck_disabled: "fib_checkDisabled s i \<Longrightarrow> fib_clickCheck i b s = s"
  by (simp add: fib_clickCheck_def)

lemma fib_clickCheck_enabled:
  "\<not> fib_checkDisabled s i \<and> fib_showResults s i \<noteq> Some True \<Longrightarrow>
     fib_clickCheck i b s = fib_handleSubmitAnswer i (answer b) s"
  by (simp add: fib_clickCheck_def)

lemma fib_enabled_response:
  "\<not> fib_checkDisabled s i \<Longrightarrow> \<exists>r. userAnswers s i = Some r \<and> r \<noteq> []"
  by (cases "userAnswers s i") (auto simp add: fib_checkDisabled_def trim_def)

lemma fib_clickCheck_scores:
  assumes "fib_score (fib_clickCheck i b s) \<noteq> fib_score s"
  shows "\<exists>r. userAnswers s i = Some r \<and> r \<noteq> [] \<and> toLowerCase r = toLowerCase (answer b)"
proof -
  have en: "\<not> fib_checkDisabled s i"
    using assms by (auto simp add: fib_clickCheck_def split: if_splits)
  have "fib_clickCheck i b s = fib_handleSubmitAnswer i (answer b) s"
    using assms by (auto simp add: fib_clickCheck_def split: if_splits)
  then have "fib_isCorrect s i (answer b)"
    using assms by (auto simp add: fib_handleSubmitAnswer_score split: if_splits)
  then obtain r where r: "userAnswers s i = Some r" "toLowerCase r = toLowerCase (answer b)"
    by (auto simp add: fib_isCorrect_iff)
  from fib_enabled_response [OF en] r(1) have "r \<noteq> []"
    by auto
  with r show ?thesis
    by blast
qed

lemma Paris_typed_enabled:
  "\<not> fib_checkDisabled (fib_handleInputChange 0 ''Paris'' fib_initial) 0
   \<and> fib_showResults (fib_handleInputChange 0 ''Paris'' fib_initial) 0 \<noteq> Some True"
  by (simp add: fib_checkDisabled_def fib_handleInputChange_def trim_def isWhiteSpace_def
      codeUnit_def)

lemma Paris_click_scores:
  "fib_score (fib_clickCheck 0 (paris_blank\<lparr>answer := ''paris''\<rparr>)
      (fib_handleInputChange 0 ''Paris'' fib_initial)) = 1"
proof -
  have "fib_isCorrect (fib_handleInputChange 0 ''Paris'' fib_initial) 0 ''paris''"
    by (simp add: fib_isCorrect_def fib_handleInputChange_def toLowerCase_Paris)
  moreover have "\<not> fib_submitted (fib_handleInputChange 0 ''Paris'' fib_initial)
      \<and> fib_score (fib_handleInputChange 0 ''Paris'' fib_initial) = 0"
    by (simp add: fib_handleInputChange_def fib_initial_def)
  ultimately show ?thesis
    by (simp add: fib_clickCheck_enabled [OF Paris_typed_enabled] fib_handleSubmitAnswer_score)
qed

text \<open>
  C2. The fill-in-the-blanks component judges the stored response of a blank correct
  exactly when a response is stored and lower-casing it and the answer gives equal strings,
  and \<open>handleSubmitAnswer\<close> adds one to the score exactly when that holds and nothing was
  checked before. An absent response is judged unequal to every answer. For an absent
  response and for the response \<open>""\<close> the Check Answer button is disabled, so a click on it
  changes nothing and adds nothing to the score, whatever the blank's answer is; a click
  that does add to the score had a stored, non-empty response whose lower-casing equals
  that of the answer. The response \<open>Paris\<close> checked against the answer \<open>paris\<close> is judged
  correct and scores.
\<close>

theorem C2_case_insensitive_match:
  "(fib_isCorrect s i ans \<longleftrightarrow> (\<exists>r. userAnswers s i = Some r \<and> toLowerCase r = toLowerCase ans))
   \<and> fib_score (fib_handleSubmitAnswer i ans s)
       = (if fib_isCorrect s i ans \<and> \<not> fib_submitted s then fib_score s + 1 else fib_score s)
   \<and> (userAnswers s i = None \<longrightarrow>
        \<not> fib_isCorrect s i ans \<and> fib_score (fib_handleSubmitAnswer i ans s) = fib_score s)
   \<and> (userAnswers s i = None \<or> userAnswers s i = Some [] \<longrightarrow>
        fib_checkDisabled s i \<and> fib_clickCheck i b s = s
        \<and> fib_score (fib_clickCheck i b s) = fib_score s)
   \<and> (fib_score (fib_clickCheck i b s) \<noteq> fib_score s \<longrightarrow>
        (\<exists>r. userAnswers s i = Some r \<and> r \<noteq> [] \<and> toLowerCase r = toLowerCase (answer b)))
   \<and> (\<not> fib_checkDisabled s i \<and> fib_showResults s i \<noteq> Some True \<longrightarrow>
        fib_clickCheck i b s = fib_handleSubmitAnswer i (answer b) s)
   \<and> fib_isCorrect (fib_handleInputChange 0 ''Paris'' fib_initial) 0 ''paris''
   \<and> fib_score (fib_clickCheck 0 (paris_blank\<lparr>answer := ''paris''\<rparr>)
        (fib_handleInputChange 0 ''Paris'' fib_initial)) = 1"
proof -
  have none: "userAnswers s i = None \<longrightarrow>
        \<not> fib_isCorrect s i ans \<and> fib_score (fib_handleSubmitAnswer i ans s) = fib_score s"
    by (simp add: fib_handleSubmitAnswer_score fib_isCorrect_iff)
  have blank: "userAnswers s i = None \<or> userAnswers s i = Some [] \<longrightarrow>
        fib_checkDisabled s i \<and> fib_clickCheck i b s = s
        \<and> fib_score (fib_clickCheck i b s) = fib_score s"
    using fib_checkDisabled_blank [of s i] fib_clickCheck_disabled [of s i b] by auto
  have scores: "fib_score (fib_clickCheck i b s) \<noteq> fib_score s \<longrightarrow>
        (\<exists>r. userAnswers s i = Some r \<and> r \<noteq> [] \<and> toLowerCase r = toLowerCase (answer b))"
    using fib_clickCheck_scores [of i b s] by blast
  have enabled: "\<not> fib_checkDisabled s i \<and> fib_showResults s i \<noteq> Some True \<longrightarrow>
        fib_clickCheck i b s = fib_handleSubmitAnswer i (answer b) s"
    using fib_clickCheck_enabled [of s i b] by blast
  have paris: "fib_isCorrect (fib_handleInputChange 0 ''Paris'' fib_initial) 0 ''paris''"
    by (simp add: fib_isCorrect_def fib_handleInputChange_def toLowerCase_Paris)
  show ?thesis
    using none blank scores enabled paris Paris_click_scores
      fib_isCorrect_iff [of s i ans] fib_handleSubmitAnswer_score [of i ans s]
    by blast
qed

theorem C2_case_insensitive_match_witness:
  "userAnswers fib_initial 0 = None
   \<and> \<not> fib_isCorrect fib_initial 0 ''paris''
   \<and> userAnswers (fib_handleInputChange 0 [] fib_initial) 0 = Some []
   \<and> fib_checkDisabled (fib_handleInputChange 0 [] fib_initial) 0
   \<and> fib_clickCheck 0 (paris_blank\<lparr>answer := []\<rparr>) (fib_handleInputChange 0 [] fib_initial)
       = fib_handleInputChange 0 [] fib_initial
   \<and> fib_score (fib_clickCheck 0 (paris_blank\<lparr>answer := []\<rparr>)
        (fib_handleInputChange 0 [] fib_initial)) = 0
   \<and> fib_score (fib_clickCheck 0 (paris_blank\<lparr>answer := ''paris''\<rparr>)
        (fib_handleInputChange 0 ''Paris'' fib_initial))
       \<noteq> fib_score (fib_handleInputChange 0 ''Paris'' fib_initial)
   \<and> (\<exists>r. userAnswers (fib_handleInputChange 0 ''Paris'' fib_initial) 0 = Some r \<and> r \<noteq> []
         \<and> toLowerCase r = toLowerCase ''paris'')
   \<and> fib_clickCheck 0 paris_blank (fib_handleInputChange 0 ''Paris'' fib_initial)
       = fib_handleSubmitAnswer 0 (answer paris_blank) (fib_handleInputChange 0 ''Paris'' fib_initial)"
proof -
  have a: "userAnswers fib_initial 0 = None"
    by (simp add: fib_initial_def)
  have b: "userAnswers (fib_handleInputChange 0 [] fib_initial) 0 = Some []"
    by (simp add: fib_handleInputChange_def)
  have c: "fib_score (fib_handleInputChange 0 [] fib_initial) = 0
      \<and> fib_score (fib_handleInputChange 0 ''Paris'' fib_initial) = 0"
    by (simp add: fib_handleInputChange_def fib_initial_def)
  have p: "answer (paris_blank\<lparr>answer := ''paris''\<rparr>) = ''paris''"
    by simp
  have d: "\<not> fib_isCorrect fib_initial 0 ''paris''"
    using a C2_case_insensitive_match [of fib_initial 0 "''paris''"] by blast
  have e: "fib_checkDisabled (fib_handleInputChange 0 [] fib_initial) 0
      \<and> fib_clickCheck 0 (paris_blank\<lparr>answer := []\<rparr>) (fib_handleInputChange 0 [] fib_initial)
          = fib_handleInputChange 0 [] fib_initial
      \<and> fib_score (fib_clickCheck 0 (paris_blank\<lparr>answer := []\<rparr>)
          (fib_handleInputChange 0 [] fib_initial))
          = fib_score (fib_handleInputChange 0 [] fib_initial)"
    using b C2_case_insensitive_match
      [of "fib_handleInputChange 0 [] fib_initial" 0 _ "paris_blank\<lparr>answer := []\<rparr>"]
    by blast
  have f: "fib_score (fib_clickCheck 0 (paris_blank\<lparr>answer := ''paris''\<rparr>)
        (fib_handleInputChange 0 ''Paris'' fib_initial))
       \<noteq> fib_score (fib_handleInputChange 0 ''Paris'' fib_initial)"
    using c C2_case_insensitive_match [of fib_initial 0 "''paris''"] by simp
  have g: "\<exists>r. userAnswers (fib_handleInputChange 0 ''Paris'' fib_initial) 0 = Some r \<and> r \<noteq> []
         \<and> toLowerCase r = toLowerCase (answer (paris_blank\<lparr>answer := ''paris''\<rparr>))"
    using f C2_case_insensitive_match
      [of "fib_handleInputChange 0 ''Paris'' fib_initial" 0 _ "paris_blank\<lparr>answer := ''paris''\<rparr>"]
    by blast
  have h: "fib_clickCheck 0 paris_blank (fib_handleInputChange 0 ''Paris'' fib_initial)
       = fib_handleSubmitAnswer 0 (answer paris_blank) (fib_handleInputChange 0 ''Paris'' fib_initial)"
    using Paris_typed_enabled C2_case_insensitive_match
      [of "fib_handleInputChange 0 ''Paris'' fib_initial" 0 _ paris_blank]
    by blast
  from e c have e': "fib_score (fib_clickCheck 0 (paris_blank\<lparr>answer := []\<rparr>)
        (fib_handleInputChange 0 [] fib_initial)) = 0"
    by simp
  from g p have g': "\<exists>r. userAnswers (fib_handleInputChange 0 ''Paris'' fib_initial) 0 = Some r
        \<and> r \<noteq> [] \<and> toLowerCase r = toLowerCase ''paris''"
    by simp
  from a b d e e' f g' h show ?thesis
    by blast
qed


section \<open>Changing a response\<close>

text \<open>
  C6. \<open>handleOptionChange\<close> and \<open>handleInputChange\<close> store the value under the item's
  index, set the item's \<open>showResults\<close> entry to false, and change neither the score, nor
  the \<open>submitted\<close> flag, nor the entries of any other item; so a change made after the
  item was checked hides its feedback and keeps the score.
\<close>

theorem C6_change_response_frame:
  "selectedAnswers (mc_handleOptionChange i v s) i = Some v
   \<and> mc_showResults (mc_handleOptionChange i v s) i = Some False
   \<and> mc_score (mc_handleOptionChange i v s) = mc_score s
   \<and> mc_submitted (mc_handleOptionChange i v s) = mc_submitted s
   \<and> (\<forall>j. j \<noteq> i \<longrightarrow>
         selectedAnswers (mc_handleOptionChange i v s) j = selectedAnswers s j
         \<and> mc_showResults (mc_handleOptionChange i v s) j = mc_showResults s j)
   \<and> mc_showResults (mc_handleOptionChange i v (mc_handleSubmitAnswer i c s)) i = Some False
   \<and> mc_score (mc_handleOptionChange i v (mc_handleSubmitAnswer i c s))
       = mc_score (mc_handleSubmitAnswer i c s)
   \<and> userAnswers (fib_handleInputChange i v t) i = Some v
   \<and> fib_showResults (fib_handleInputChange i v t) i = Some False
   \<and> fib_score (fib_handleInputChange i v t) = fib_score t
   \<and> fib_submitted (fib_handleInputChange i v t) = fib_submitted t
   \<and> (\<forall>j. j \<noteq> i \<longrightarrow>
         userAnswers (fib_handleInputChange i v t) j = userAnswers t j
         \<and> fib_showResults (fib_handleInputChange i v t) j = fib_showResults t j)
   \<and> fib_showResults (fib_handleInputChange i v (fib_handleSubmitAnswer i c t)) i = Some False
   \<and> fib_score (fib_handleInputChange i v (fib_handleSubmitAnswer i c t))
       = fib_score (fib_handleSubmitAnswer i c t)"
  by (simp add: mc_handleOptionChange_def fib_handleInputChange_def)

theorem C6_change_response_frame_witness:
  "(1::nat) \<noteq> 0
   \<and> selectedAnswers (mc_handleOptionChange 0 ''Rome''
        (mc_handleSubmitAnswer 1 ''Paris'' (mc_handleOptionChange 1 ''Paris'' mc_initial))) 1
       = Some ''Paris''
   \<and> mc_showResults (mc_handleOptionChange 0 ''Rome''
        (mc_handleSubmitAnswer 1 ''Paris'' (mc_handleOptionChange 1 ''Paris'' mc_initial))) 1
       = Some True
   \<and> userAnswers (fib_handleInputChange 0 ''Rome''
        (fib_handleSubmitAnswer 1 ''Paris'' (fib_handleInputChange 1 ''Paris'' fib_initial))) 1
       = Some ''Paris''
   \<and> fib_showResults (fib_handleInputChange 0 ''Rome''
        (fib_handleSubmitAnswer 1 ''Paris'' (fib_handleInputChange 1 ''Paris'' fib_initial))) 1
       = Some True"
proof -
  have n: "(1::nat) \<noteq> 0"
    by simp
  have m: "selectedAnswers (mc_handleSubmitAnswer 1 ''Paris'' (mc_handleOptionChange 1 ''Paris'' mc_initial)) 1
        = Some ''Paris''
      \<and> mc_showResults (mc_handleSubmitAnswer 1 ''Paris'' (mc_handleOptionChange 1 ''Paris'' mc_initial)) 1
        = Some True"
    by (simp add: mc_handleSubmitAnswer_def mc_handleOptionChange_def)
  have f: "userAnswers (fib_handleSubmitAnswer 1 ''Paris'' (fib_handleInputChange 1 ''Paris'' fib_initial)) 1
        = Some ''Paris''
      \<and> fib_showResults (fib_handleSubmitAnswer 1 ''Paris'' (fib_handleInputChange 1 ''Paris'' fib_initial)) 1
        = Some True"
    by (simp add: fib_handleSubmitAnswer_def fib_handleInputChange_def)
  note frame = C6_change_response_frame
      [of 0 "''Rome''" "mc_handleSubmitAnswer 1 ''Paris'' (mc_handleOptionChange 1 ''Paris'' mc_initial)"
          _ "fib_handleSubmitAnswer 1 ''Paris'' (fib_handleInputChange 1 ''Paris'' fib_initial)"]
  from frame n have
    "selectedAnswers (mc_handleOptionChange 0 ''Rome''
        (mc_handleSubmitAnswer 1 ''Paris'' (mc_handleOptionChange 1 ''Paris'' mc_initial))) 1
       = selectedAnswers (mc_handleSubmitAnswer 1 ''Paris'' (mc_handleOptionChange 1 ''Paris'' mc_initial)) 1
     \<and> mc_showResults (mc_handleOptionChange 0 ''Rome''
        (mc_handleSubmitAnswer 1 ''Paris'' (mc_handleOptionChange 1 ''Paris'' mc_initial))) 1
       = mc_showResults (mc_handleSubmitAnswer 1 ''Paris'' (mc_handleOptionChange 1 ''Paris'' mc_initial)) 1
     \<and> userAnswers (fib_handleInputChange 0 ''Rome''
        (fib_handleSubmitAnswer 1 ''Paris'' (fib_handleInputChange 1 ''Paris'' fib_initial))) 1
       = userAnswers (fib_handleSubmitAnswer 1 ''Paris'' (fib_handleInputChange 1 ''Paris'' fib_initial)) 1
     \<and> fib_showResults (fib_handleInputChange 0 ''Rome''
        (fib_handleSubmitAnswer 1 ''Paris'' (fib_handleInputChange 1 ''Paris'' fib_initial))) 1
       = fib_showResults (fib_handleSubmitAnswer 1 ''Paris'' (fib_handleInputChange 1 ''Paris'' fib_initial)) 1"
    by blast
  with n m f show ?thesis
    by simp
qed


section \<open>Submitting the lesson text\<close>

lemma typing_frame:
  "loading (typing s vs) = loading s \<and> gameData (typing s vs) = gameData s
   \<and> error (typing s vs) = error s"
  by (induction vs arbitrary: s) (simp_all add: setLessonText_def)

lemma begin_nonblank:
  "trim (lessonText s) \<noteq> [] \<Longrightarrow>
     generateGames_begin s =
       (s\<lparr>loading := True, gameData := None, error := []\<rparr>,
        [\<lparr>httpMethod = POST, apiName = ''learn2gameapi'', path = ''/items'',
          body_lessonText = lessonText s\<rparr>])"
  by (simp add: generateGames_begin_def)

lemma pending_state:
  assumes "trim (lessonText s) \<noteq> []"
  shows "loading (typing (fst (generateGames_begin s)) vs)
    \<and> gameData (typing (fst (generateGames_begin s)) vs) = None
    \<and> error (typing (fst (generateGames_begin s)) vs) = []"
  using assms by (simp add: begin_nonblank typing_frame)

lemma displayError_nonempty: "displayError err \<noteq> []"
  by (simp add: displayError_def)

lemma idle_page_nonblank: "trim (lessonText idle_page) \<noteq> []"
  by (simp add: idle_page_def trim_def isWhiteSpace_def codeUnit_def)

lemma blank_page_blank: "\<forall>c\<in>set (lessonText blank_page). isWhiteSpace c"
  by (simp add: blank_page_def idle_page_def isWhiteSpace_def codeUnit_def)

text \<open>
  C3. When a request was issued and its body decodes to a bundle, then after
  \<open>generateGames\<close> has finished \<open>gameData\<close> is that bundle, \<open>error\<close> is the empty string and
  \<open>loading\<close> is false, whatever was typed into the textarea meanwhile.
\<close>

theorem C3_success_stores_bundle:
  assumes "trim (lessonText s) \<noteq> []"
  shows "gameData (generateGames_settle (JsonResolved json) (typing (fst (generateGames_begin s)) vs))
           = Some json
    \<and> error (generateGames_settle (JsonResolved json) (typing (fst (generateGames_begin s)) vs)) = []
    \<and> loading (generateGames_settle (JsonResolved json) (typing (fst (generateGames_begin s)) vs))
        = False"
  using pending_state [OF assms, of vs] by (simp add: generateGames_settle_def)

theorem C3_success_stores_bundle_witness:
  "trim (lessonText idle_page) \<noteq> []
   \<and> gameData (generateGames_settle (JsonResolved lesson_bundle)
        (typing (fst (generateGames_begin idle_page)) [''Photo''])) = Some lesson_bundle
   \<and> error (generateGames_settle (JsonResolved lesson_bundle)
        (typing (fst (generateGames_begin idle_page)) [''Photo''])) = []
   \<and> loading (generateGames_settle (JsonResolved lesson_bundle)
        (typing (fst (generateGames_begin idle_page)) [''Photo''])) = False"
  using idle_page_nonblank
    C3_success_stores_bundle [OF idle_page_nonblank, of lesson_bundle "[''Photo'']"]
  by blast

text \<open>
  C4. When a request was issued and either await rejects, then after \<open>generateGames\<close> has
  finished \<open>gameData\<close> is unset, \<open>loading\<close> is false, and \<open>error\<close> is the fixed sentence,
  followed by \<open>" Error: "\<close> and the caught error's message when that message is present and
  not empty; in every case \<open>error\<close> is not empty. On success \<open>loading\<close> is reset as well.
\<close>

theorem C4_failure_sets_error:
  assumes "trim (lessonText s) \<noteq> []"
    and "out = ResponseRejected err \<or> out = JsonRejected err"
  shows "gameData (generateGames_settle out (typing (fst (generateGames_begin s)) vs)) = None
    \<and> error (generateGames_settle out (typing (fst (generateGames_begin s)) vs))
        = ''Failed to generate games. Please try again. Make sure your serverless function is deployed correctly.''
          @ (case message err of None \<Rightarrow> [] | Some m \<Rightarrow> if m = [] then [] else '' Error: '' @ m)
    \<and> error (generateGames_settle out (typing (fst (generateGames_begin s)) vs)) \<noteq> []
    \<and> loading (generateGames_settle out (typing (fst (generateGames_begin s)) vs)) = False
    \<and> loading (generateGames_settle (JsonResolved json) (typing (fst (generateGames_begin s)) vs))
        = False"
proof -
  have e: "error (generateGames_settle out (typing (fst (generateGames_begin s)) vs))
        = displayError err"
    using assms(2) by (auto simp add: generateGames_settle_def)
  have g: "gameData (generateGames_settle out (typing (fst (generateGames_begin s)) vs)) = None"
    using assms(2) pending_state [OF assms(1), of vs] by (auto simp add: generateGames_settle_def)
  have l: "loading (generateGames_settle o' s') = False" for o' s'
    by (simp add: generateGames_settle_def)
  show ?thesis
    using e g l displayError_nonempty [of err] by (simp add: displayError_def)
qed

theorem C4_failure_sets_error_witness:
  "trim (lessonText idle_page) \<noteq> []
   \<and> gameData (generateGames_settle (JsonRejected (Thrown (Some ''Unexpected token'')))
        (typing (fst (generateGames_begin idle_page)) [])) = None
   \<and> error (generateGames_settle (JsonRejected (Thrown (Some ''Unexpected token'')))
        (typing (fst (generateGames_begin idle_page)) []))
       = ''Failed to generate games. Please try again. Make sure your serverless function is deployed correctly. Error: Unexpected token''
   \<and> error (generateGames_settle (ResponseRejected (Thrown None))
        (typing (fst (generateGames_begin idle_page)) []))
       = ''Failed to generate games. Please try again. Make sure your serverless function is deployed correctly.''
   \<and> loading (generateGames_settle (ResponseRejected (Thrown None))
        (typing (fst (generateGames_begin idle_page)) [])) = False"
proof -
  have a: "JsonRejected (Thrown (Some ''Unexpected token'')) = ResponseRejected (Thrown (Some ''Unexpected token''))
      \<or> JsonRejected (Thrown (Some ''Unexpected token'')) = JsonRejected (Thrown (Some ''Unexpected token''))"
    by simp
  have b: "ResponseRejected (Thrown None) = ResponseRejected (Thrown None)
      \<or> ResponseRejected (Thrown None) = JsonRejected (Thrown None)"
    by simp
  show ?thesis
    using idle_page_nonblank
      C4_failure_sets_error [OF idle_page_nonblank a, of "[]"]
      C4_failure_sets_error [OF idle_page_nonblank b, of "[]"]
    by simp
qed

text \<open>
  C5. When \<open>lessonText\<close> consists of white space only (the empty text included),
  \<open>generateGames\<close> issues no request and ends at once: \<open>error\<close> is the validation message,
  and \<open>loading\<close>, \<open>gameData\<close> and \<open>lessonText\<close> are as before.
\<close>

theorem C5_blank_text_rejected:
  assumes "\<forall>c\<in>set (lessonText s). isWhiteSpace c"
  shows "snd (generateGames_begin s) = []
    \<and> error (fst (generateGames_begin s)) = ''Please paste or type some lesson content.''
    \<and> loading (fst (generateGames_begin s)) = loading s
    \<and> gameData (fst (generateGames_begin s)) = gameData s
    \<and> lessonText (fst (generateGames_begin s)) = lessonText s"
proof -
  have "trim (lessonText s) = []"
    using assms by (simp add: trim_empty_iff)
  then show ?thesis
    by (simp add: generateGames_begin_def)
qed

theorem C5_blank_text_rejected_witness:
  "list_all isWhiteSpace (lessonText blank_page)
   \<and> snd (generateGames_begin blank_page) = []
   \<and> error (fst (generateGames_begin blank_page)) = ''Please paste or type some lesson content.''
   \<and> loading (fst (generateGames_begin blank_page)) = False
   \<and> gameData (fst (generateGames_begin blank_page)) = None
   \<and> snd (generateGames_begin (blank_page\<lparr>lessonText := []\<rparr>)) = []"
proof -
  have e: "\<forall>c\<in>set (lessonText (blank_page\<lparr>lessonText := []\<rparr>)). isWhiteSpace c"
    by simp
  have b: "loading blank_page = False \<and> gameData blank_page = None"
    by (simp add: blank_page_def idle_page_def)
  show ?thesis
    using b blank_page_blank C5_blank_text_rejected [OF blank_page_blank]
      C5_blank_text_rejected [OF e]
    by (simp add: list_all_iff)
qed

text \<open>
  C8. When \<open>lessonText\<close> has a character that is not white space, \<open>generateGames\<close> issues
  exactly one request: a POST through the API \<open>learn2gameapi\<close> to the path \<open>/items\<close> whose
  body holds the \<open>lessonText\<close> of the moment of the click. Until the request settles,
  whatever is typed meanwhile, \<open>loading\<close> is true and the button is rendered disabled.
\<close>

theorem C8_one_request_while_loading:
  assumes "\<exists>c\<in>set (lessonText s). \<not> isWhiteSpace c"
  shows "snd (generateGames_begin s)
      = [\<lparr>httpMethod = POST, apiName = ''learn2gameapi'', path = ''/items'',
          body_lessonText = lessonText s\<rparr>]
    \<and> length (snd (generateGames_begin s)) = 1
    \<and> loading (typing (fst (generateGames_begin s)) vs)
    \<and> button_disabled (renderApp (typing (fst (generateGames_begin s)) vs))"
proof -
  have n: "trim (lessonText s) \<noteq> []"
    using assms by (simp add: trim_empty_iff)
  show ?thesis
    using pending_state [OF n, of vs] by (simp add: begin_nonblank [OF n] renderApp_def)
qed

theorem C8_one_request_while_loading_witness:
  "(\<exists>c\<in>set (lessonText idle_page). \<not> isWhiteSpace c)
   \<and> snd (generateGames_begin idle_page)
      = [\<lparr>httpMethod = POST, apiName = ''learn2gameapi'', path = ''/items'',
          body_lessonText = ''Photosynthesis converts light into energy.''\<rparr>]
   \<and> loading (typing (fst (generateGames_begin idle_page)) [''Photo'', ''''])
   \<and> button_disabled (renderApp (typing (fst (generateGames_begin idle_page)) [''Photo'', '''']))"
proof -
  have n: "\<exists>c\<in>set (lessonText idle_page). \<not> isWhiteSpace c"
    using idle_page_nonblank by (simp add: trim_empty_iff)
  have t: "lessonText idle_page = ''Photosynthesis converts light into energy.''"
    by (simp add: idle_page_def)
  show ?thesis
    using n t C8_one_request_while_loading [OF n, of "[''Photo'', '''']"]
    by simp
qed


section \<open>Rendering the games\<close>

lemma renderGames_length: "length (renderGames gs) = length gs"
  by (simp add: renderGames_def)

lemma renderGames_nth: "i < length gs \<Longrightarrow> renderGames gs ! i = dispatchGame (gs ! i) i"
  by (simp add: renderGames_def nth_enumerate_eq)

text \<open>
  C7. The page renders the games of a bundle by position: the entry at each index of the
  result is the multiple-choice element for a game of type \<open>multipleChoice\<close>, the
  fill-in-the-blanks element for a game of type \<open>fillInTheBlanks\<close>, and nothing for a game of
  any other type, each element holding the game of that index; the result has as many
  entries as the bundle has games. Mounting either element starts from the initial state
  of the component (no answers, nothing revealed, score 0, not submitted).
\<close>

theorem C7_dispatch_by_type_in_order:
  "length (renderGames (games b)) = length (games b)
   \<and> (\<forall>i<length (games b).
         renderGames (games b) ! i =
           (if type (games b ! i) = ''multipleChoice''
              then Some (MultipleChoiceGame i (games b ! i))
            else if type (games b ! i) = ''fillInTheBlanks''
              then Some (FillInTheBlanksGame i (games b ! i))
            else None))
   \<and> games_panel (renderApp s) = map_option (\<lambda>b. renderGames (games b)) (gameData s)
   \<and> mount (MultipleChoiceGame k g) = MultipleChoiceInstance g mc_initial
   \<and> mount (FillInTheBlanksGame k g) = FillInTheBlanksInstance g fib_initial
   \<and> selectedAnswers mc_initial = Map.empty \<and> mc_showResults mc_initial = Map.empty
   \<and> mc_score mc_initial = 0 \<and> mc_submitted mc_initial = False
   \<and> userAnswers fib_initial = Map.empty \<and> fib_showResults fib_initial = Map.empty
   \<and> fib_score fib_initial = 0 \<and> fib_submitted fib_initial = False"
  by (simp add: renderGames_length renderGames_nth dispatchGame_def renderApp_def
      mc_initial_def fib_initial_def)

theorem C7_dispatch_by_type_in_order_witness:
  "(2::nat) < length (games lesson_bundle)
   \<and> length (renderGames (games lesson_bundle)) = 3
   \<and> renderGames (games lesson_bundle) ! 0 = Some (MultipleChoiceGame 0 quiz_game)
   \<and> renderGames (games lesson_bundle) ! 1 = None
   \<and> renderGames (games lesson_bundle) ! 2 = Some (FillInTheBlanksGame 2 blanks_game)"
proof -
  have g: "games lesson_bundle = [quiz_game, puzzle_game, blanks_game]"
    by (simp add: lesson_bundle_def)
  have t: "type quiz_game = ''multipleChoice'' \<and> type puzzle_game = ''crossword''
      \<and> type blanks_game = ''fillInTheBlanks''"
    by (simp add: quiz_game_def puzzle_game_def blanks_game_def)
  have l: "(0::nat) < length (games lesson_bundle) \<and> (1::nat) < length (games lesson_bundle)
      \<and> (2::nat) < length (games lesson_bundle)"
    by (simp add: g)
  note d = C7_dispatch_by_type_in_order [of lesson_bundle]
  from d l have "renderGames (games lesson_bundle) ! 0
        = (if type (games lesson_bundle ! 0) = ''multipleChoice''
              then Some (MultipleChoiceGame 0 (games lesson_bundle ! 0))
            else if type (games lesson_bundle ! 0) = ''fillInTheBlanks''
              then Some (FillInTheBlanksGame 0 (games lesson_bundle ! 0))
            else None)"
    by blast
  then have e0: "renderGames (games lesson_bundle) ! 0 = Some (MultipleChoiceGame 0 quiz_game)"
    by (simp add: g t)
  from d l have "renderGames (games lesson_bundle) ! 1
        = (if type (games lesson_bundle ! 1) = ''multipleChoice''
              then Some (MultipleChoiceGame 1 (games lesson_bundle ! 1))
            else if type (games lesson_bundle ! 1) = ''fillInTheBlanks''
              then Some (FillInTheBlanksGame 1 (games lesson_bundle ! 1))
            else None)"
    by blast
  then have e1: "renderGames (games lesson_bundle) ! 1 = None"
    by (simp add: g t)
  from d l have "renderGames (games lesson_bundle) ! 2
        = (if type (games lesson_bundle ! 2) = ''multipleChoice''
              then Some (MultipleChoiceGame 2 (games lesson_bundle ! 2))
            else if type (games lesson_bundle ! 2) = ''fillInTheBlanks''
              then Some (FillInTheBlanksGame 2 (games lesson_bundle ! 2))
            else None)"
    by blast
  then have e2: "renderGames (games lesson_bundle) ! 2 = Some (FillInTheBlanksGame 2 blanks_game)"
    by (simp add: g t)
  from d have n: "length (renderGames (games lesson_bundle)) = 3"
    by (simp add: g)
  from l n e0 e1 e2 show ?thesis
    by blast
qed

section \<open>The feedback panel of a blank\<close>

text \<open>
  C9. The feedback panel of a checked blank does not show the blank's own explanation and
  hint: with the answer \<open>paris\<close> typed into the first blank and checked, rendering the panel
  ends in \<open>ReferenceError\<close> for the name \<open>q\<close>, and so it does for every blank whose
  \<open>showResults\<close> entry is true. The panel of MultipleChoiceGame at the same point shows the
  explanation and hint of its own question.
\<close>

theorem C9_blank_panel_reference_error:
  "fib_feedbackPanel
      (fib_handleSubmitAnswer 0 (answer paris_blank) (fib_handleInputChange 0 ''paris'' fib_initial))
      paris_blank 0
     = Inl (ReferenceError ''q'')
   \<and> fib_feedbackPanel (fib_handleSubmitAnswer bIndex (answer b) t) b bIndex
     = Inl (ReferenceError ''q'')
   \<and> mc_feedbackPanel
      (mc_handleSubmitAnswer 0 (correctAnswer paris_question)
         (mc_handleOptionChange 0 ''Paris'' mc_initial))
      quiz_game paris_question 0
     = Inr (Some \<lparr>fb_correct = True, fb_explanation = explanation paris_question,
                  fb_hint = hint paris_question\<rparr>)"
  by (simp add: fib_feedbackPanel_def fib_itemScope_def fib_handleSubmitAnswer_def
      mc_feedbackPanel_def mc_isCorrect_def mc_handleSubmitAnswer_def mc_handleOptionChange_def
      quiz_game_def paris_question_def truthyText_def)

section \<open>The controls of the page\<close>

theorem C10_textarea_counterexample:
  "loading (fst (generateGames_begin idle_page))
   \<and> \<not> textarea_disabled (renderApp (fst (generateGames_begin idle_page)))"
  by (simp add: begin_nonblank [OF idle_page_nonblank] renderApp_def)

text \<open>
  C10 (as the code has it). The textarea is rendered enabled in every state of the page, so
  its disabled state depends on nothing, \<open>loading\<close> included; the button is rendered
  disabled exactly when \<open>loading\<close> is true.
\<close>

theorem C10_controls_disabled_state:
  "textarea_disabled (renderApp s) = False
   \<and> button_disabled (renderApp s) = loading s"
  by (simp add: renderApp_def)

end
